theory Spec2Isabelle
  imports Main "HOL-Library.Word"
begin

text \<open>
  The registration form of Flowternity Turf, \<^verbatim>\<open>src/components/FlowternityForm.tsx\<close>:
  the form data and the flag of the component, the change handler, the validation and
  the submission to the webhook, with the functions of the language they call
  (\<^verbatim>\<open>trim\<close>, the pattern test, \<^verbatim>\<open>parseInt\<close>, \<^verbatim>\<open>JSON.stringify\<close>). Line numbers are
  those of that file.
\<close>

section \<open>Strings of the host language\<close>

text \<open>
  A string of the source language is a sequence of 16-bit code units. The literals of
  the component are ASCII, so a literal is written \<open>js ''...''\<close>: every character
  becomes the code unit of the same number.
\<close>

type_synonym jschar = "16 word"
type_synonym jsstring = "jschar list"

definition js :: "string \<Rightarrow> jsstring" where
  "js s = map of_char s"

text \<open>
  The white space of the language (the classes WhiteSpace and LineTerminator): what
  \<^verbatim>\<open>String.prototype.trim\<close> strips, what \<^verbatim>\<open>\s\<close> matches in a pattern without
  flags, and what \<^verbatim>\<open>parseInt\<close> skips in front of its argument.
\<close>

definition isWhiteSpace :: "jschar \<Rightarrow> bool" where
  "isWhiteSpace c \<longleftrightarrow>
     c = 0x09 \<or> c = 0x0A \<or> c = 0x0B \<or> c = 0x0C \<or> c = 0x0D \<or> c = 0x20 \<or>
     c = 0xA0 \<or> c = 0x1680 \<or> (0x2000 \<le> c \<and> c \<le> 0x200A) \<or>
     c = 0x2028 \<or> c = 0x2029 \<or> c = 0x202F \<or> c = 0x205F \<or> c = 0x3000 \<or>
     c = 0xFEFF"

definition trimStart :: "jsstring \<Rightarrow> jsstring" where
  "trimStart s = dropWhile isWhiteSpace s"

definition trim :: "jsstring \<Rightarrow> jsstring" where
  "trim s = rev (dropWhile isWhiteSpace (rev (dropWhile isWhiteSpace s)))"

subsection \<open>Patterns\<close>

text \<open>
  A pattern is matched by derivatives. \<^verbatim>\<open>test\<close> on a pattern anchored by
  \<^verbatim>\<open>^\<close> and \<^verbatim>\<open>$\<close>, with no flag, answers whether the whole string is a word of
  the pattern.
\<close>

datatype regex =
    Fail
  | Eps
  | Atom "jschar \<Rightarrow> bool"
  | Alt regex regex
  | Seq regex regex
  | Star regex

definition OneOrMore :: "regex \<Rightarrow> regex" where
  "OneOrMore r = Seq r (Star r)"

definition Lit :: "jschar \<Rightarrow> regex" where
  "Lit c = Atom (\<lambda>d. d = c)"

primrec nullable :: "regex \<Rightarrow> bool" where
  "nullable Fail = False"
| "nullable Eps = True"
| "nullable (Atom p) = False"
| "nullable (Alt r s) = (nullable r \<or> nullable s)"
| "nullable (Seq r s) = (nullable r \<and> nullable s)"
| "nullable (Star r) = True"

primrec deriv :: "jschar \<Rightarrow> regex \<Rightarrow> regex" where
  "deriv c Fail = Fail"
| "deriv c Eps = Fail"
| "deriv c (Atom p) = (if p c then Eps else Fail)"
| "deriv c (Alt r s) = Alt (deriv c r) (deriv c s)"
| "deriv c (Seq r s) =
     (if nullable r then Alt (Seq (deriv c r) s) (deriv c s) else Seq (deriv c r) s)"
| "deriv c (Star r) = Seq (deriv c r) (Star r)"

primrec test :: "regex \<Rightarrow> jsstring \<Rightarrow> bool" where
  "test r [] = nullable r"
| "test r (c # cs) = test (deriv c r) cs"

text \<open>The class \<^verbatim>\<open>[^\s@]\<close> and the pattern of line 46.\<close>

definition notSpaceAt :: "jschar \<Rightarrow> bool" where
  "notSpaceAt c \<longleftrightarrow> \<not> isWhiteSpace c \<and> c \<noteq> 0x40"

definition emailRegex :: regex where
  "emailRegex =
     Seq (OneOrMore (Atom notSpaceAt))
       (Seq (Lit 0x40)
         (Seq (OneOrMore (Atom notSpaceAt))
           (Seq (Lit 0x2E) (OneOrMore (Atom notSpaceAt)))))"

subsection \<open>parseInt\<close>

text \<open>
  \<^verbatim>\<open>parseInt(string)\<close> with the radix left out, step by step as the language
  defines it: leading white space is dropped, a sign is read, a prefix \<^verbatim>\<open>0x\<close> or
  \<^verbatim>\<open>0X\<close> selects radix 16 (radix 10 otherwise), and the longest prefix of
  digits of that radix is the numeral; an empty one gives NaN. A number is
  \<open>None\<close> for NaN and \<open>Some\<close> of the integer otherwise: the conversion to a double
  is monotone and exact on the integers up to \<open>2 ^ 53\<close>, so the comparisons with
  \<open>1\<close> and \<open>150\<close> of line 58 read the same on the integer.
\<close>

type_synonym number = "int option"

definition digitValue :: "jschar \<Rightarrow> nat option" where
  "digitValue c =
     (if 0x30 \<le> c \<and> c \<le> 0x39 then Some (unat c - 0x30)
      else if 0x61 \<le> c \<and> c \<le> 0x7A then Some (unat c - 0x61 + 10)
      else if 0x41 \<le> c \<and> c \<le> 0x5A then Some (unat c - 0x41 + 10)
      else None)"

definition isRadixDigit :: "nat \<Rightarrow> jschar \<Rightarrow> bool" where
  "isRadixDigit R c = (case digitValue c of None \<Rightarrow> False | Some d \<Rightarrow> d < R)"

definition mathInt :: "nat \<Rightarrow> jsstring \<Rightarrow> nat" where
  "mathInt R Z =
     foldl (\<lambda>acc c. acc * R + (case digitValue c of None \<Rightarrow> 0 | Some d \<Rightarrow> d)) 0 Z"

definition parseInt :: "jsstring \<Rightarrow> number" where
  "parseInt string =
     (let S = trimStart string;
          sign = (if S \<noteq> [] \<and> hd S = 0x2D then - 1 else 1);
          S = (if S \<noteq> [] \<and> (hd S = 0x2B \<or> hd S = 0x2D) then tl S else S);
          hex = (2 \<le> length S \<and> (take 2 S = [0x30, 0x78] \<or> take 2 S = [0x30, 0x58]));
          R = (if hex then 16 else 10);
          S = (if hex then drop 2 S else S);
          Z = takeWhile (isRadixDigit R) S
      in if Z = [] then None else Some (sign * int (mathInt R Z)))"

definition isNaN :: "number \<Rightarrow> bool" where
  "isNaN n \<longleftrightarrow> n = None"

text \<open>A comparison with NaN is false.\<close>

definition numLess :: "number \<Rightarrow> int \<Rightarrow> bool" where
  "numLess n k = (case n of None \<Rightarrow> False | Some x \<Rightarrow> x < k)"

definition numGreater :: "number \<Rightarrow> int \<Rightarrow> bool" where
  "numGreater n k = (case n of None \<Rightarrow> False | Some x \<Rightarrow> x > k)"

subsection \<open>JSON.stringify on the form data\<close>

text \<open>
  A string is quoted code point by code point: a leading surrogate followed by a
  trailing one is copied as it is, a surrogate alone and a control character are
  escaped, the quote and the backslash get a backslash.
\<close>

definition hexDigit :: "nat \<Rightarrow> jschar" where
  "hexDigit n = (if n < 10 then of_nat (0x30 + n) else of_nat (0x61 + (n - 10)))"

definition unicodeEscape :: "jschar \<Rightarrow> jsstring" where
  "unicodeEscape c =
     (let n = unat c
      in [0x5C, 0x75, hexDigit (n div 4096 mod 16), hexDigit (n div 256 mod 16),
          hexDigit (n div 16 mod 16), hexDigit (n mod 16)])"

definition isLeadingSurrogate :: "jschar \<Rightarrow> bool" where
  "isLeadingSurrogate c \<longleftrightarrow> 0xD800 \<le> c \<and> c \<le> 0xDBFF"

definition isTrailingSurrogate :: "jschar \<Rightarrow> bool" where
  "isTrailingSurrogate c \<longleftrightarrow> 0xDC00 \<le> c \<and> c \<le> 0xDFFF"

definition quoteUnit :: "jschar \<Rightarrow> jsstring" where
  "quoteUnit c =
     (if c = 0x08 then [0x5C, 0x62]
      else if c = 0x09 then [0x5C, 0x74]
      else if c = 0x0A then [0x5C, 0x6E]
      else if c = 0x0C then [0x5C, 0x66]
      else if c = 0x0D then [0x5C, 0x72]
      else if c = 0x22 then [0x5C, 0x22]
      else if c = 0x5C then [0x5C, 0x5C]
      else if c < 0x20 \<or> isLeadingSurrogate c \<or> isTrailingSurrogate c then unicodeEscape c
      else [c])"

fun quoteUnits :: "jsstring \<Rightarrow> jsstring" where
  "quoteUnits [] = []"
| "quoteUnits [c] = quoteUnit c"
| "quoteUnits (c # d # cs) =
     (if isLeadingSurrogate c \<and> isTrailingSurrogate d then c # d # quoteUnits cs
      else quoteUnit c @ quoteUnits (d # cs))"

definition quoteJSONString :: "jsstring \<Rightarrow> jsstring" where
  "quoteJSONString s = [0x22] @ quoteUnits s @ [0x22]"

section \<open>The component\<close>

record FormData =
  name :: jsstring
  age :: jsstring
  city :: jsstring
  phone :: jsstring
  email :: jsstring

text \<open>
  The keys of the object are created in the order of lines 19 to 23, and neither the
  change handler nor the reset changes that order.
\<close>

definition stringify :: "FormData \<Rightarrow> jsstring" where
  "stringify fd =
     js ''{\"name\":'' @ quoteJSONString (name fd) @
     js '',\"age\":'' @ quoteJSONString (age fd) @
     js '',\"city\":'' @ quoteJSONString (city fd) @
     js '',\"phone\":'' @ quoteJSONString (phone fd) @
     js '',\"email\":'' @ quoteJSONString (email fd) @
     js ''}''"

record component =
  formData :: FormData
  isSubmitting :: bool

definition initial :: component where
  "initial =
     \<lparr>formData = \<lparr>name = [], age = [], city = [], phone = [], email = []\<rparr>,
      isSubmitting = False\<rparr>"

record toast =
  title :: jsstring
  description :: jsstring
  variant :: "jsstring option"

record request =
  url :: jsstring
  http_method :: jsstring
  headers :: "(jsstring \<times> jsstring) list"
  body :: jsstring

datatype logged = Num nat | Bool bool | Str jsstring

text \<open>
  What a handler does besides returning is a trace of events, in the order of the
  calls. The two state setters are events too, and change the component.
\<close>

datatype event =
    PreventDefault
  | Toast toast
  | SetIsSubmitting bool
  | SetFormData FormData
  | Fetch request
  | ConsoleLog jsstring logged

type_synonym world = "component \<times> event list"

definition emit :: "event \<Rightarrow> world \<Rightarrow> world" where
  "emit e w = (fst w, snd w @ [e])"

definition toastCall :: "toast \<Rightarrow> world \<Rightarrow> world" where
  "toastCall t w = emit (Toast t) w"

definition setIsSubmitting :: "bool \<Rightarrow> world \<Rightarrow> world" where
  "setIsSubmitting b w = emit (SetIsSubmitting b) ((fst w)\<lparr>isSubmitting := b\<rparr>, snd w)"

definition setFormData :: "FormData \<Rightarrow> world \<Rightarrow> world" where
  "setFormData fd w = emit (SetFormData fd) ((fst w)\<lparr>formData := fd\<rparr>, snd w)"

subsection \<open>handleInputChange\<close>

text \<open>
  The handler is attached to the five inputs of lines 156 to 231, so the name of the
  event's target is one of their five \<^verbatim>\<open>name\<close> attributes. Its one effect is the
  update of the form data.
\<close>

datatype field = Name | Age | City | Phone | Email

definition handleInputChange :: "field \<Rightarrow> jsstring \<Rightarrow> component \<Rightarrow> component" where
  "handleInputChange target value c =
     c\<lparr>formData :=
        (case target of
           Name \<Rightarrow> (formData c)\<lparr>name := value\<rparr>
         | Age \<Rightarrow> (formData c)\<lparr>age := value\<rparr>
         | City \<Rightarrow> (formData c)\<lparr>city := value\<rparr>
         | Phone \<Rightarrow> (formData c)\<lparr>phone := value\<rparr>
         | Email \<Rightarrow> (formData c)\<lparr>email := value\<rparr>)\<rparr>"

subsection \<open>validateForm\<close>

text \<open>An empty string is the only string that is false in a condition.\<close>

definition validateForm :: "world \<Rightarrow> bool \<times> world" where
  "validateForm w =
     (let fd = formData (fst w)
      in if trim (name fd) = [] \<or> trim (age fd) = [] \<or> trim (city fd) = [] \<or>
            trim (phone fd) = [] \<or> trim (email fd) = []
         then (False,
           toastCall \<lparr>title = js ''Missing Information'',
             description = js ''Please fill in all required fields.'',
             variant = Some (js ''destructive'')\<rparr> w)
         else if \<not> test emailRegex (email fd)
         then (False,
           toastCall \<lparr>title = js ''Invalid Email'',
             description = js ''Please enter a valid email address.'',
             variant = Some (js ''destructive'')\<rparr> w)
         else
           (let ageNum = parseInt (age fd)
            in if isNaN ageNum \<or> numLess ageNum 1 \<or> numGreater ageNum 150
               then (False,
                 toastCall \<lparr>title = js ''Invalid Age'',
                   description = js ''Please enter a valid age.'',
                   variant = Some (js ''destructive'')\<rparr> w)
               else (True, w)))"

subsection \<open>handleSubmit\<close>

text \<open>
  The network is the one thing the handler waits for. What it answers is a parameter
  of the model: the request is rejected (no response at all), or a response comes with
  a status, whose body can then be read as text or fails to be.
\<close>

datatype text_outcome = TextResolves jsstring | TextRejects

datatype fetch_outcome = FetchRejects | FetchResolves nat text_outcome

definition ok :: "nat \<Rightarrow> bool" where
  "ok status \<longleftrightarrow> 200 \<le> status \<and> status \<le> 299"

datatype exn = NetworkError | BodyError | SubmissionFailed nat jsstring

definition WEBHOOK_URL :: jsstring where
  "WEBHOOK_URL = js ''https://loopzenn.app.n8n.cloud/webhook-test/flowternity-forn''"

definition tryBlock :: "fetch_outcome \<Rightarrow> world \<Rightarrow> (exn + unit) \<times> world" where
  "tryBlock outcome w =
     (let w = emit (Fetch \<lparr>url = WEBHOOK_URL, http_method = js ''POST'',
                headers = [(js ''Content-Type'', js ''application/json'')],
                body = stringify (formData (fst w))\<rparr>) w
      in case outcome of
           FetchRejects \<Rightarrow> (Inl NetworkError, w)
         | FetchResolves status text \<Rightarrow>
             (let w = emit (ConsoleLog (js ''Response status:'') (Num status)) w;
                  w = emit (ConsoleLog (js ''Response ok:'') (Bool (ok status))) w
              in if ok status
                 then
                   (let w = toastCall \<lparr>title = js ''Success!'',
                              description = js ''Your information has been submitted successfully.'',
                              variant = None\<rparr> w;
                        w = setFormData
                              \<lparr>name = [], age = [], city = [], phone = [], email = []\<rparr> w
                    in (Inr (), w))
                 else
                   (case text of
                      TextRejects \<Rightarrow> (Inl BodyError, w)
                    | TextResolves errorText \<Rightarrow>
                        (let w = emit (ConsoleLog (js ''Error response:'') (Str errorText)) w
                         in (Inl (SubmissionFailed status errorText), w)))))"

definition handleSubmit :: "fetch_outcome \<Rightarrow> world \<Rightarrow> world" where
  "handleSubmit outcome w =
     (let w = emit PreventDefault w;
          (valid, w) = validateForm w
      in if \<not> valid then w
         else
           (let w = setIsSubmitting True w;
                (r, w) = tryBlock outcome w;
                w = (case r of
                       Inl error \<Rightarrow>
                         toastCall \<lparr>title = js ''Submission Error'',
                           description =
                             js ''There was an error submitting your information. Please try again.'',
                           variant = Some (js ''destructive'')\<rparr> w
                     | Inr _ \<Rightarrow> w)
            in setIsSubmitting False w))"

section \<open>What the properties are stated with\<close>

subsection \<open>The words of a pattern\<close>

inductive_set star :: "jsstring set \<Rightarrow> jsstring set" for A :: "jsstring set" where
  star_nil: "[] \<in> star A"
| star_app: "u \<in> A \<Longrightarrow> v \<in> star A \<Longrightarrow> u @ v \<in> star A"

primrec lang :: "regex \<Rightarrow> jsstring set" where
  "lang Fail = {}"
| "lang Eps = {[]}"
| "lang (Atom p) = {[c] | c. p c}"
| "lang (Alt r s) = lang r \<union> lang s"
| "lang (Seq r s) = {u @ v | u v. u \<in> lang r \<and> v \<in> lang s}"
| "lang (Star r) = star (lang r)"

subsection \<open>The specification's vocabulary\<close>

text \<open>
  The specification names three kinds of validation failure and gives each a
  notification (its section 6). The component has no such type: a failed validation is
  the result \<open>False\<close> and one toast. \<open>reports w k\<close> says that validation of \<open>w\<close> fails
  and that its one effect is the notification of kind \<open>k\<close>.
\<close>

datatype ValidationError = MissingFields | InvalidEmail | InvalidAge

definition spec_notification :: "ValidationError \<Rightarrow> toast" where
  "spec_notification k =
     (case k of
        MissingFields \<Rightarrow>
          \<lparr>title = js ''Missing Information'',
           description = js ''Please fill in all required fields.'',
           variant = Some (js ''destructive'')\<rparr>
      | InvalidEmail \<Rightarrow>
          \<lparr>title = js ''Invalid Email'',
           description = js ''Please enter a valid email address.'',
           variant = Some (js ''destructive'')\<rparr>
      | InvalidAge \<Rightarrow>
          \<lparr>title = js ''Invalid Age'',
           description = js ''Please enter a valid age.'',
           variant = Some (js ''destructive'')\<rparr>)"

definition reports :: "world \<Rightarrow> ValidationError \<Rightarrow> bool" where
  "reports w k \<longleftrightarrow> validateForm w = (False, (fst w, snd w @ [Toast (spec_notification k)]))"

text \<open>Some field is empty once trimmed.\<close>

definition incomplete :: "FormData \<Rightarrow> bool" where
  "incomplete fd \<longleftrightarrow>
     trim (name fd) = [] \<or> trim (age fd) = [] \<or> trim (city fd) = [] \<or>
     trim (phone fd) = [] \<or> trim (email fd) = []"

text \<open>
  The age does not parse, or parses to a number outside the range from 1 to 150.
\<close>

definition age_unacceptable :: "jsstring \<Rightarrow> bool" where
  "age_unacceptable a = (case parseInt a of None \<Rightarrow> True | Some n \<Rightarrow> n < 1 \<or> 150 < n)"

text \<open>
  Numerals in the words of the amended age property: the decimal digits and the
  number a run of them denotes, the hexadecimal digits and the number a run of them
  denotes.
\<close>

definition isDecimalDigit :: "jschar \<Rightarrow> bool" where
  "isDecimalDigit c \<longleftrightarrow> 0x30 \<le> c \<and> c \<le> 0x39"

definition isHexDigit :: "jschar \<Rightarrow> bool" where
  "isHexDigit c \<longleftrightarrow>
     (0x30 \<le> c \<and> c \<le> 0x39) \<or> (0x61 \<le> c \<and> c \<le> 0x66) \<or> (0x41 \<le> c \<and> c \<le> 0x46)"

definition decimal :: "jsstring \<Rightarrow> nat" where
  "decimal ds = foldl (\<lambda>n c. 10 * n + (unat c - 0x30)) 0 ds"

definition hexadecimal :: "jsstring \<Rightarrow> nat" where
  "hexadecimal hs =
     foldl (\<lambda>n c. 16 * n +
        (if c \<le> 0x39 then unat c - 0x30
         else if 0x61 \<le> c then unat c - 0x61 + 10
         else unat c - 0x41 + 10)) 0 hs"

text \<open>
  The email shape in the specification's words: one or more characters that are
  neither white space nor \<^verbatim>\<open>@\<close>, then \<^verbatim>\<open>@\<close>, then one or more characters that are
  not white space, then a dot, then one or more characters that are not white space.
\<close>

definition notSpace :: "jschar \<Rightarrow> bool" where
  "notSpace c \<longleftrightarrow> \<not> isWhiteSpace c"

definition spec_email_shape :: regex where
  "spec_email_shape =
     Seq (OneOrMore (Atom notSpaceAt))
       (Seq (Lit 0x40)
         (Seq (OneOrMore (Atom notSpace))
           (Seq (Lit 0x2E) (OneOrMore (Atom notSpace)))))"

subsection \<open>Reading a trace\<close>

definition toasts :: "event list \<Rightarrow> toast list" where
  "toasts tr = concat (map (\<lambda>e. case e of Toast t \<Rightarrow> [t] | _ \<Rightarrow> []) tr)"

definition fetches :: "event list \<Rightarrow> request list" where
  "fetches tr = concat (map (\<lambda>e. case e of Fetch r \<Rightarrow> [r] | _ \<Rightarrow> []) tr)"

definition flagWrites :: "event list \<Rightarrow> bool list" where
  "flagWrites tr = concat (map (\<lambda>e. case e of SetIsSubmitting b \<Rightarrow> [b] | _ \<Rightarrow> []) tr)"

text \<open>The form data of the specification's scenarios.\<close>

definition jane :: FormData where
  "jane =
     \<lparr>name = js ''Jane Doe'', age = js ''30'', city = js ''Springfield'',
      phone = js ''555-1234'', email = js ''jane@example.com''\<rparr>"

text \<open>The request of lines 83 to 89 and the toast of the catch block, by name.\<close>

definition the_request :: "FormData \<Rightarrow> request" where
  "the_request fd =
     \<lparr>url = WEBHOOK_URL, http_method = js ''POST'',
      headers = [(js ''Content-Type'', js ''application/json'')], body = stringify fd\<rparr>"

definition submission_error :: toast where
  "submission_error =
     \<lparr>title = js ''Submission Error'',
      description = js ''There was an error submitting your information. Please try again.'',
      variant = Some (js ''destructive'')\<rparr>"

section \<open>Patterns: the matcher decides membership\<close>

lemma nullable_lang: "nullable r \<longleftrightarrow> [] \<in> lang r"
  by (induction r) (auto intro: star_nil)

lemma star_cons_split:
  assumes "w \<in> star A" and "w = c # s"
  shows "\<exists>u v. s = u @ v \<and> c # u \<in> A \<and> v \<in> star A"
  using assms
proof (induction arbitrary: s rule: star.induct)
  case star_nil
  then show ?case by simp
next
  case (star_app u v)
  show ?case
  proof (cases u)
    case Nil
    with star_app show ?thesis by simp
  next
    case (Cons d u')
    with star_app.prems have "d = c" and "s = u' @ v" by simp_all
    with Cons star_app.hyps show ?thesis by blast
  qed
qed

lemma star_cons: "c # s \<in> star A \<longleftrightarrow> (\<exists>u v. s = u @ v \<and> c # u \<in> A \<and> v \<in> star A)"
proof
  assume "c # s \<in> star A"
  then show "\<exists>u v. s = u @ v \<and> c # u \<in> A \<and> v \<in> star A"
    by (rule star_cons_split) simp
next
  assume "\<exists>u v. s = u @ v \<and> c # u \<in> A \<and> v \<in> star A"
  then obtain u v where "s = u @ v" "c # u \<in> A" "v \<in> star A" by blast
  then have "(c # u) @ v \<in> star A" by (intro star_app)
  with \<open>s = u @ v\<close> show "c # s \<in> star A" by simp
qed

lemma deriv_lang: "s \<in> lang (deriv c r) \<longleftrightarrow> c # s \<in> lang r"
proof (induction r arbitrary: s)
  case (Seq r1 r2)
  show ?case
  proof (cases "nullable r1")
    case True
    then have n: "[] \<in> lang r1" by (simp add: nullable_lang)
    have "c # s \<in> lang (Seq r1 r2) \<longleftrightarrow>
          (\<exists>u v. c # s = u @ v \<and> u \<in> lang r1 \<and> v \<in> lang r2)" by auto
    also have "\<dots> \<longleftrightarrow>
          (c # s \<in> lang r2 \<or> (\<exists>u' v. s = u' @ v \<and> c # u' \<in> lang r1 \<and> v \<in> lang r2))"
      using n by (auto simp: Cons_eq_append_conv)
    finally show ?thesis using True Seq by auto
  next
    case False
    then have n: "[] \<notin> lang r1" by (simp add: nullable_lang)
    have "c # s \<in> lang (Seq r1 r2) \<longleftrightarrow>
          (\<exists>u v. c # s = u @ v \<and> u \<in> lang r1 \<and> v \<in> lang r2)" by auto
    also have "\<dots> \<longleftrightarrow> (\<exists>u' v. s = u' @ v \<and> c # u' \<in> lang r1 \<and> v \<in> lang r2)"
      using n by (auto simp: Cons_eq_append_conv)
    finally show ?thesis using False Seq by auto
  qed
next
  case (Star r)
  then show ?case by (auto simp: star_cons)
qed auto

lemma test_lang: "test r s \<longleftrightarrow> s \<in> lang r"
  by (induction s arbitrary: r) (simp_all add: nullable_lang deriv_lang)

lemma star_atoms: "s \<in> star {[c] | c. p c} \<longleftrightarrow> list_all p s"
proof
  assume "s \<in> star {[c] | c. p c}"
  then show "list_all p s" by (induction rule: star.induct) auto
next
  assume "list_all p s"
  then show "s \<in> star {[c] | c. p c}"
  proof (induction s)
    case Nil
    show ?case by (rule star_nil)
  next
    case (Cons c s)
    then have "[c] @ s \<in> star {[c] | c. p c}" by (intro star_app) auto
    then show ?case by simp
  qed
qed

lemma lang_OneOrMore_Atom: "lang (OneOrMore (Atom p)) = {s. s \<noteq> [] \<and> list_all p s}"
proof -
  have "s \<in> lang (OneOrMore (Atom p)) \<longleftrightarrow> s \<noteq> [] \<and> list_all p s" for s
  proof (cases s)
    case Nil
    then show ?thesis by (simp add: OneOrMore_def)
  next
    case (Cons c cs)
    have "c # cs \<in> lang (OneOrMore (Atom p)) \<longleftrightarrow>
          (\<exists>u v. c # cs = u @ v \<and> (\<exists>d. u = [d] \<and> p d) \<and> list_all p v)"
      by (simp add: OneOrMore_def star_atoms)
    also have "\<dots> \<longleftrightarrow> p c \<and> list_all p cs"
    proof
      assume "\<exists>u v. c # cs = u @ v \<and> (\<exists>d. u = [d] \<and> p d) \<and> list_all p v"
      then show "p c \<and> list_all p cs" by auto
    next
      assume "p c \<and> list_all p cs"
      then have "c # cs = [c] @ cs \<and> (\<exists>d. [c] = [d] \<and> p d) \<and> list_all p cs" by simp
      then show "\<exists>u v. c # cs = u @ v \<and> (\<exists>d. u = [d] \<and> p d) \<and> list_all p v" by blast
    qed
    finally show ?thesis using Cons by simp
  qed
  then show ?thesis by blast
qed

lemma lang_Lit: "lang (Lit c) = {[c]}"
  by (auto simp: Lit_def)

text \<open>The pattern of line 46, read as a decomposition of the string.\<close>

lemma test_emailRegex:
  "test emailRegex s \<longleftrightarrow>
     (\<exists>l d t. s = l @ [0x40] @ d @ [0x2E] @ t \<and>
        l \<noteq> [] \<and> list_all notSpaceAt l \<and>
        d \<noteq> [] \<and> list_all notSpaceAt d \<and>
        t \<noteq> [] \<and> list_all notSpaceAt t)"
  unfolding test_lang emailRegex_def
  by (simp only: lang.simps(5) lang_OneOrMore_Atom lang_Lit) blast

section \<open>Evaluation on literals\<close>

lemmas string_eval = js_def trim_def trimStart_def isWhiteSpace_def

lemmas regex_eval = emailRegex_def OneOrMore_def Lit_def notSpaceAt_def

lemmas parse_eval = parseInt_def digitValue_def isRadixDigit_def mathInt_def Let_def

lemmas quote_eval =
  stringify_def quoteJSONString_def quoteUnit_def isLeadingSurrogate_def
  isTrailingSurrogate_def

text \<open>A string trims to the empty string exactly when it is white space only.\<close>

lemma trim_empty_iff: "trim s = [] \<longleftrightarrow> list_all isWhiteSpace s"
proof
  assume "trim s = []"
  then have all: "\<forall>c \<in> set (dropWhile isWhiteSpace s). isWhiteSpace c"
    by (simp add: trim_def dropWhile_eq_Nil_conv)
  have "dropWhile isWhiteSpace s = []"
  proof (rule ccontr)
    assume ne: "dropWhile isWhiteSpace s \<noteq> []"
    then have "\<not> isWhiteSpace (hd (dropWhile isWhiteSpace s))" by (rule hd_dropWhile)
    moreover from ne have "hd (dropWhile isWhiteSpace s) \<in> set (dropWhile isWhiteSpace s)"
      by (rule hd_in_set)
    ultimately show False using all by blast
  qed
  then show "list_all isWhiteSpace s"
    by (simp add: dropWhile_eq_Nil_conv list_all_iff)
next
  assume "list_all isWhiteSpace s"
  then have d: "dropWhile isWhiteSpace s = []"
    by (simp add: dropWhile_eq_Nil_conv list_all_iff)
  show "trim s = []" unfolding trim_def d by simp
qed

lemma fetches_simps:
  "fetches [] = []"
  "fetches (Fetch r # tr) = r # fetches tr"
  "fetches (PreventDefault # tr) = fetches tr"
  "fetches (Toast t # tr) = fetches tr"
  "fetches (SetIsSubmitting b # tr) = fetches tr"
  "fetches (SetFormData fd # tr) = fetches tr"
  "fetches (ConsoleLog s x # tr) = fetches tr"
  "fetches (tr @ tr') = fetches tr @ fetches tr'"
  by (simp_all add: fetches_def)

lemma toasts_simps:
  "toasts [] = []"
  "toasts (Toast t # tr) = t # toasts tr"
  "toasts (PreventDefault # tr) = toasts tr"
  "toasts (Fetch r # tr) = toasts tr"
  "toasts (SetIsSubmitting b # tr) = toasts tr"
  "toasts (SetFormData fd # tr) = toasts tr"
  "toasts (ConsoleLog s x # tr) = toasts tr"
  "toasts (tr @ tr') = toasts tr @ toasts tr'"
  by (simp_all add: toasts_def)

lemma flagWrites_simps:
  "flagWrites [] = []"
  "flagWrites (SetIsSubmitting b # tr) = b # flagWrites tr"
  "flagWrites (PreventDefault # tr) = flagWrites tr"
  "flagWrites (Fetch r # tr) = flagWrites tr"
  "flagWrites (Toast t # tr) = flagWrites tr"
  "flagWrites (SetFormData fd # tr) = flagWrites tr"
  "flagWrites (ConsoleLog s x # tr) = flagWrites tr"
  "flagWrites (tr @ tr') = flagWrites tr @ flagWrites tr'"
  by (simp_all add: flagWrites_def)

section \<open>validateForm, check by check\<close>

lemma validateForm_eq:
  "validateForm w =
     (if incomplete (formData (fst w))
      then (False, (fst w, snd w @ [Toast (spec_notification MissingFields)]))
      else if \<not> test emailRegex (email (formData (fst w)))
      then (False, (fst w, snd w @ [Toast (spec_notification InvalidEmail)]))
      else if age_unacceptable (age (formData (fst w)))
      then (False, (fst w, snd w @ [Toast (spec_notification InvalidAge)]))
      else (True, w))"
  by (simp add: validateForm_def incomplete_def age_unacceptable_def spec_notification_def
      toastCall_def emit_def Let_def isNaN_def numLess_def numGreater_def split: option.split)

lemma notification_inject:
  "spec_notification k = spec_notification k' \<longleftrightarrow> k = k'"
  by (cases k; cases k') (simp_all add: spec_notification_def js_def)

lemma reports_iff:
  "reports w k \<longleftrightarrow>
     (if incomplete (formData (fst w)) then k = MissingFields
      else if \<not> test emailRegex (email (formData (fst w))) then k = InvalidEmail
      else age_unacceptable (age (formData (fst w))) \<and> k = InvalidAge)"
  by (auto simp add: reports_def validateForm_eq notification_inject)

lemma fst_validateForm:
  "fst (validateForm w) \<longleftrightarrow>
     \<not> incomplete (formData (fst w)) \<and> test emailRegex (email (formData (fst w))) \<and>
     \<not> age_unacceptable (age (formData (fst w)))"
  by (simp add: validateForm_eq)

lemma validateForm_passes:
  assumes "fst (validateForm (c, tr))"
  shows "validateForm (c, tr') = (True, (c, tr'))"
  using assms by (simp add: validateForm_eq split: if_splits)

lemma jane_stringify:
  "stringify jane =
     js ''{\"name\":\"Jane Doe\",\"age\":\"30\",\"city\":\"Springfield\",\"phone\":\"555-1234\",\"email\":\"jane@example.com\"}''"
  by (simp add: jane_def quote_eval js_def)

lemma jane_valid:
  "\<not> incomplete jane \<and> test emailRegex (email jane) \<and> \<not> age_unacceptable (age jane)"
  by (simp add: jane_def incomplete_def age_unacceptable_def string_eval regex_eval parse_eval)

lemma jane_passes: "fst (validateForm (\<lparr>formData = jane, isSubmitting = b\<rparr>, tr))"
  using jane_valid by (simp add: fst_validateForm)

section \<open>handleSubmit, path by path\<close>

lemma handleSubmit_invalid:
  assumes "\<not> fst (validateForm (c, tr))"
  shows "handleSubmit outcome (c, tr) = snd (validateForm (c, tr @ [PreventDefault]))"
proof -
  from assms have "\<not> fst (validateForm (c, tr @ [PreventDefault]))"
    by (simp add: fst_validateForm)
  then show ?thesis
    by (cases "validateForm (c, tr @ [PreventDefault])")
       (simp add: handleSubmit_def emit_def)
qed

lemma handleSubmit_rejected:
  assumes "fst (validateForm (c, tr))"
  shows "handleSubmit FetchRejects (c, tr) =
     (c\<lparr>isSubmitting := False\<rparr>,
      tr @ [PreventDefault, SetIsSubmitting True, Fetch (the_request (formData c)),
            Toast submission_error, SetIsSubmitting False])"
  by (simp add: handleSubmit_def tryBlock_def emit_def toastCall_def setIsSubmitting_def
      validateForm_passes [OF assms] the_request_def submission_error_def)

lemma handleSubmit_ok:
  assumes "fst (validateForm (c, tr))" and "ok status"
  shows "handleSubmit (FetchResolves status text) (c, tr) =
     (\<lparr>formData = \<lparr>name = [], age = [], city = [], phone = [], email = []\<rparr>,
       isSubmitting = False\<rparr>,
      tr @ [PreventDefault, SetIsSubmitting True, Fetch (the_request (formData c)),
            ConsoleLog (js ''Response status:'') (Num status),
            ConsoleLog (js ''Response ok:'') (Bool True),
            Toast \<lparr>title = js ''Success!'',
              description = js ''Your information has been submitted successfully.'',
              variant = None\<rparr>,
            SetFormData \<lparr>name = [], age = [], city = [], phone = [], email = []\<rparr>,
            SetIsSubmitting False])"
  using assms(2)
  by (simp add: handleSubmit_def tryBlock_def emit_def toastCall_def setIsSubmitting_def
      setFormData_def validateForm_passes [OF assms(1)] the_request_def)

lemma handleSubmit_not_ok:
  assumes "fst (validateForm (c, tr))" and "\<not> ok status"
  shows "handleSubmit (FetchResolves status text) (c, tr) =
     (c\<lparr>isSubmitting := False\<rparr>,
      tr @ [PreventDefault, SetIsSubmitting True, Fetch (the_request (formData c)),
            ConsoleLog (js ''Response status:'') (Num status),
            ConsoleLog (js ''Response ok:'') (Bool False)] @
           (case text of TextRejects \<Rightarrow> []
            | TextResolves errorText \<Rightarrow> [ConsoleLog (js ''Error response:'') (Str errorText)]) @
           [Toast submission_error, SetIsSubmitting False])"
  using assms(2)
  by (simp add: handleSubmit_def tryBlock_def emit_def toastCall_def setIsSubmitting_def
      validateForm_passes [OF assms(1)] the_request_def submission_error_def
      split: text_outcome.split)

section \<open>parseInt on numerals\<close>

lemma digit_not_space: "isDecimalDigit c \<Longrightarrow> \<not> isWhiteSpace c"
  by (auto simp: isDecimalDigit_def isWhiteSpace_def word_le_nat_alt)

lemma isRadixDigit_10: "isRadixDigit 10 c \<longleftrightarrow> isDecimalDigit c"
  by (auto simp: isRadixDigit_def digitValue_def isDecimalDigit_def word_le_nat_alt)

lemma isRadixDigit_16: "isRadixDigit 16 c \<longleftrightarrow> isHexDigit c"
  by (auto simp: isRadixDigit_def digitValue_def isHexDigit_def word_le_nat_alt)

lemma foldl_cong_set:
  "(\<And>a x. x \<in> set xs \<Longrightarrow> f a x = g a x) \<Longrightarrow> foldl f a0 xs = foldl g a0 xs"
  by (induction xs arbitrary: a0) simp_all

lemma mathInt_decimal: "list_all isDecimalDigit ds \<Longrightarrow> mathInt 10 ds = decimal ds"
  unfolding mathInt_def decimal_def
  by (rule foldl_cong_set)
     (auto simp: list_all_iff digitValue_def isDecimalDigit_def)

lemma mathInt_hexadecimal: "list_all isHexDigit hs \<Longrightarrow> mathInt 16 hs = hexadecimal hs"
  unfolding mathInt_def hexadecimal_def
  by (rule foldl_cong_set)
     (auto simp: list_all_iff digitValue_def isHexDigit_def word_le_nat_alt)

lemma takeWhile_run:
  assumes "list_all P xs" and "rest = [] \<or> \<not> P (hd rest)"
  shows "takeWhile P (xs @ rest) = xs"
proof -
  from assms(2) have "takeWhile P rest = []" by (cases rest) auto
  with assms(1) show ?thesis by (simp add: list_all_iff)
qed

lemma parseInt_skips_space:
  assumes "list_all isWhiteSpace ws"
  shows "parseInt (ws @ s) = parseInt s"
proof -
  from assms have "trimStart (ws @ s) = trimStart s"
    by (simp add: trimStart_def list_all_iff)
  then show ?thesis by (simp add: parseInt_def)
qed

lemma parseInt_decimal:
  assumes ne: "ds \<noteq> []" and digits: "list_all isDecimalDigit ds"
    and stop: "rest = [] \<or> \<not> isDecimalDigit (hd rest)"
    and nohex: "\<not> (ds = [0x30] \<and> rest \<noteq> [] \<and> (hd rest = 0x78 \<or> hd rest = 0x58))"
  shows "parseInt (ds @ rest) = Some (int (decimal ds))"
proof -
  from ne obtain d ds' where ds: "ds = d # ds'" by (cases ds) auto
  with digits have d: "isDecimalDigit d" by simp
  then have nows: "\<not> isWhiteSpace d" by (rule digit_not_space)
  from d have nosign: "d \<noteq> 0x2D" "d \<noteq> 0x2B" by (auto simp: isDecimalDigit_def)
  define S where "S = ds @ rest"
  have S: "S \<noteq> []" "hd S = d"
    by (simp_all add: S_def ds)
  have trim: "trimStart S = S"
    using nows by (simp add: trimStart_def S_def ds)
  have nothex: "take 2 S \<noteq> [0x30, 0x78] \<and> take 2 S \<noteq> [0x30, 0x58]"
  proof (cases ds')
    case Nil
    with nohex ds show ?thesis
      by (cases rest) (auto simp: S_def)
  next
    case (Cons e ds'')
    with digits ds have "isDecimalDigit e" by simp
    then have "e \<noteq> 0x78" "e \<noteq> 0x58" by (auto simp: isDecimalDigit_def)
    with Cons ds show ?thesis
      by (simp add: S_def)
  qed
  have run: "takeWhile (isRadixDigit 10) S = ds"
    unfolding S_def using digits stop
    by (intro takeWhile_run) (simp_all add: isRadixDigit_10 list_all_iff)
  have "parseInt S = Some (int (mathInt 10 ds))"
    by (simp add: parseInt_def Let_def trim S nosign nothex run ne)
  then show ?thesis by (simp add: S_def mathInt_decimal [OF digits])
qed

lemma parseInt_hex:
  assumes x: "x = 0x78 \<or> x = 0x58"
    and ne: "hs \<noteq> []" and digits: "list_all isHexDigit hs"
    and stop: "rest = [] \<or> \<not> isHexDigit (hd rest)"
  shows "parseInt ([0x30, x] @ hs @ rest) = Some (int (hexadecimal hs))"
proof -
  have trim: "trimStart ([0x30, x] @ hs @ rest) = [0x30, x] @ hs @ rest"
    by (simp add: trimStart_def isWhiteSpace_def)
  have run: "takeWhile (isRadixDigit 16) (hs @ rest) = hs"
    using digits stop by (intro takeWhile_run) (simp_all add: isRadixDigit_16 list_all_iff)
  have "parseInt ([0x30, x] @ hs @ rest) = Some (int (mathInt 16 hs))"
    unfolding parseInt_def trim Let_def
    using x run ne by auto
  then show ?thesis by (simp add: mathInt_hexadecimal [OF digits])
qed

lemma parseInt_no_digits:
  assumes "s = [] \<or> (\<not> isWhiteSpace (hd s) \<and> hd s \<noteq> 0x2B \<and> hd s \<noteq> 0x2D \<and> \<not> isDecimalDigit (hd s))"
  shows "parseInt s = None"
proof (cases s)
  case Nil
  then show ?thesis by (simp add: parseInt_def trimStart_def)
next
  case (Cons d s')
  with assms have d: "\<not> isWhiteSpace d" "d \<noteq> 0x2B" "d \<noteq> 0x2D" "\<not> isDecimalDigit d"
    by simp_all
  from d(4) have zero: "d \<noteq> 0x30" by (auto simp: isDecimalDigit_def)
  have trim: "trimStart s = s"
    using d(1) by (simp add: trimStart_def Cons)
  have nothex: "take 2 s \<noteq> [0x30, 0x78] \<and> take 2 s \<noteq> [0x30, 0x58]"
    using zero by (simp add: Cons)
  have run: "takeWhile (isRadixDigit 10) s = []"
    using d(4) by (simp add: Cons isRadixDigit_10)
  have hd: "s \<noteq> []" "hd s = d" by (simp_all add: Cons)
  show ?thesis
    by (simp add: parseInt_def Let_def trim hd d(2,3) nothex run)
qed

section \<open>The properties\<close>

text \<open>
  C1. With the form data of Jane Doe, whatever the network answers, the handler issues
  exactly one request: a POST to the webhook with the content type of JSON, whose body
  is the object of the five fields under the keys name, age, city, phone and email,
  every value the string as held (the age is the string \<^verbatim>\<open>"30"\<close>). When the response
  has a status from 200 to 299, the five fields end empty and \<open>isSubmitting\<close> ends
  false.
\<close>

theorem submit_jane:
  "fetches (snd (handleSubmit outcome (\<lparr>formData = jane, isSubmitting = b\<rparr>, []))) =
     [\<lparr>url = js ''https://loopzenn.app.n8n.cloud/webhook-test/flowternity-forn'',
       http_method = js ''POST'',
       headers = [(js ''Content-Type'', js ''application/json'')],
       body = js ''{\"name\":\"Jane Doe\",\"age\":\"30\",\"city\":\"Springfield\",\"phone\":\"555-1234\",\"email\":\"jane@example.com\"}''\<rparr>] \<and>
   (ok status \<longrightarrow>
      fst (handleSubmit (FetchResolves status text) (\<lparr>formData = jane, isSubmitting = b\<rparr>, [])) =
        \<lparr>formData = \<lparr>name = [], age = [], city = [], phone = [], email = []\<rparr>,
         isSubmitting = False\<rparr>)"
proof -
  let ?w = "(\<lparr>formData = jane, isSubmitting = b\<rparr>, [])"
  have req: "the_request jane =
     \<lparr>url = js ''https://loopzenn.app.n8n.cloud/webhook-test/flowternity-forn'',
       http_method = js ''POST'',
       headers = [(js ''Content-Type'', js ''application/json'')],
       body = js ''{\"name\":\"Jane Doe\",\"age\":\"30\",\"city\":\"Springfield\",\"phone\":\"555-1234\",\"email\":\"jane@example.com\"}''\<rparr>"
    by (simp only: the_request_def jane_stringify WEBHOOK_URL_def)
  have one: "fetches (snd (handleSubmit outcome ?w)) = [the_request jane]"
  proof (cases outcome)
    case FetchRejects
    then show ?thesis
      by (simp add: handleSubmit_rejected [OF jane_passes] fetches_simps)
  next
    case (FetchResolves status' text')
    show ?thesis
    proof (cases "ok status'")
      case True
      with FetchResolves show ?thesis
        by (simp add: handleSubmit_ok [OF jane_passes] fetches_simps)
    next
      case False
      with FetchResolves show ?thesis
        by (simp add: handleSubmit_not_ok [OF jane_passes] fetches_simps
            split: text_outcome.split)
    qed
  qed
  have reset: "ok status \<longrightarrow>
      fst (handleSubmit (FetchResolves status text) ?w) =
        \<lparr>formData = \<lparr>name = [], age = [], city = [], phone = [], email = []\<rparr>,
         isSubmitting = False\<rparr>"
    by (simp add: handleSubmit_ok [OF jane_passes])
  from one req reset show ?thesis by simp
qed

theorem submit_jane_witness:
  "ok 200 \<and>
   fst (handleSubmit (FetchResolves 200 (TextResolves []))
          (\<lparr>formData = jane, isSubmitting = False\<rparr>, [])) =
     \<lparr>formData = \<lparr>name = [], age = [], city = [], phone = [], email = []\<rparr>,
      isSubmitting = False\<rparr>"
  using submit_jane [of FetchRejects False 200 "TextResolves []"] by (simp add: ok_def)

text \<open>
  C2. For every component whose form data passes validation: when the request is
  rejected before any response, or a response comes whose status is outside 200 to
  299 (whether its body can be read or not), the handler shows exactly one toast, the
  one titled "Submission Error"; the form data is what it was before the submission;
  \<open>isSubmitting\<close> ends false. What the user sees (the component and the toasts) is the
  same in the two cases.
\<close>

theorem failed_submission:
  assumes "fst (validateForm (c, []))"
    and "outcome = FetchRejects \<or> (\<exists>status text. outcome = FetchResolves status text \<and> \<not> ok status)"
  shows "toasts (snd (handleSubmit outcome (c, []))) =
           [\<lparr>title = js ''Submission Error'',
             description = js ''There was an error submitting your information. Please try again.'',
             variant = Some (js ''destructive'')\<rparr>] \<and>
         formData (fst (handleSubmit outcome (c, []))) = formData c \<and>
         \<not> isSubmitting (fst (handleSubmit outcome (c, []))) \<and>
         fst (handleSubmit outcome (c, [])) = fst (handleSubmit FetchRejects (c, [])) \<and>
         toasts (snd (handleSubmit outcome (c, []))) = toasts (snd (handleSubmit FetchRejects (c, [])))"
proof -
  have rej: "handleSubmit FetchRejects (c, []) =
     (c\<lparr>isSubmitting := False\<rparr>,
      [PreventDefault, SetIsSubmitting True, Fetch (the_request (formData c)),
       Toast submission_error, SetIsSubmitting False])"
    using handleSubmit_rejected [OF assms(1)] by simp
  from assms(2) show ?thesis
  proof
    assume "outcome = FetchRejects"
    then show ?thesis
      by (simp add: rej toasts_simps submission_error_def)
  next
    assume "\<exists>status text. outcome = FetchResolves status text \<and> \<not> ok status"
    then obtain status bodyText where o: "outcome = FetchResolves status bodyText" and "\<not> ok status"
      by blast
    then show ?thesis
      by (simp add: rej handleSubmit_not_ok [OF assms(1)] toasts_simps submission_error_def
          split: text_outcome.split)
  qed
qed

theorem failed_submission_witness:
  "fst (validateForm (\<lparr>formData = jane, isSubmitting = False\<rparr>, [])) \<and> \<not> ok 500 \<and>
   toasts (snd (handleSubmit (FetchResolves 500 (TextResolves (js ''server error'')))
                  (\<lparr>formData = jane, isSubmitting = False\<rparr>, []))) =
     [\<lparr>title = js ''Submission Error'',
       description = js ''There was an error submitting your information. Please try again.'',
       variant = Some (js ''destructive'')\<rparr>] \<and>
   formData (fst (handleSubmit (FetchResolves 500 (TextResolves (js ''server error'')))
                  (\<lparr>formData = jane, isSubmitting = False\<rparr>, []))) = jane \<and>
   \<not> isSubmitting (fst (handleSubmit (FetchResolves 500 (TextResolves (js ''server error'')))
                  (\<lparr>formData = jane, isSubmitting = False\<rparr>, [])))"
proof -
  let ?c = "\<lparr>formData = jane, isSubmitting = False\<rparr>"
  let ?o = "FetchResolves 500 (TextResolves (js ''server error''))"
  have v: "fst (validateForm (?c, []))"
    by (rule jane_passes)
  have n: "\<not> ok 500" by (simp add: ok_def)
  then have "?o = FetchRejects \<or>
    (\<exists>status text. ?o = FetchResolves status text \<and> \<not> ok status)"
    by blast
  from failed_submission [OF v this]
  have "toasts (snd (handleSubmit ?o (?c, []))) =
     [\<lparr>title = js ''Submission Error'',
       description = js ''There was an error submitting your information. Please try again.'',
       variant = Some (js ''destructive'')\<rparr>]"
    and "formData (fst (handleSubmit ?o (?c, []))) = formData ?c"
    and "\<not> isSubmitting (fst (handleSubmit ?o (?c, [])))"
    by blast+
  with v n show ?thesis by simp
qed

text \<open>
  C3. \<open>isSubmitting\<close> is false when the handler concludes, on every path. A submission
  that fails validation leaves the flag as it found it, false for a component at rest.
  A submission that passes validation writes the flag exactly twice, true and then
  false, and the write of false is the last event of the handler, whatever the network
  answered: a response in the 2xx range, another response, a body that cannot be
  read, or no response at all.
\<close>

theorem isSubmitting_cleared:
  "(\<not> isSubmitting c \<longrightarrow> \<not> isSubmitting (fst (handleSubmit outcome (c, [])))) \<and>
   (fst (validateForm (c, [])) \<longrightarrow>
      \<not> isSubmitting (fst (handleSubmit outcome (c, []))) \<and>
      flagWrites (snd (handleSubmit outcome (c, []))) = [True, False] \<and>
      last (snd (handleSubmit outcome (c, []))) = SetIsSubmitting False)"
proof -
  have passing: "\<not> isSubmitting (fst (handleSubmit outcome (c, []))) \<and>
      flagWrites (snd (handleSubmit outcome (c, []))) = [True, False] \<and>
      last (snd (handleSubmit outcome (c, []))) = SetIsSubmitting False"
    if v: "fst (validateForm (c, []))"
  proof (cases outcome)
    case FetchRejects
    then show ?thesis
      by (simp add: handleSubmit_rejected [OF v] flagWrites_simps)
  next
    case (FetchResolves status bodyText)
    show ?thesis
    proof (cases "ok status")
      case True
      with FetchResolves show ?thesis
        by (simp add: handleSubmit_ok [OF v] flagWrites_simps)
    next
      case False
      with FetchResolves show ?thesis
        by (simp add: handleSubmit_not_ok [OF v] flagWrites_simps split: text_outcome.split)
    qed
  qed
  have failing: "fst (handleSubmit outcome (c, [])) = c" if "\<not> fst (validateForm (c, []))"
    using that by (simp add: handleSubmit_invalid validateForm_eq)
  show ?thesis
    using passing failing by (cases "fst (validateForm (c, []))") auto
qed

theorem isSubmitting_cleared_witness:
  "\<not> isSubmitting initial \<and> \<not> isSubmitting (fst (handleSubmit FetchRejects (initial, []))) \<and>
   fst (validateForm (\<lparr>formData = jane, isSubmitting = True\<rparr>, [])) \<and>
   \<not> isSubmitting (fst (handleSubmit FetchRejects (\<lparr>formData = jane, isSubmitting = True\<rparr>, []))) \<and>
   flagWrites (snd (handleSubmit FetchRejects (\<lparr>formData = jane, isSubmitting = True\<rparr>, []))) = [True, False]"
  using isSubmitting_cleared [of initial FetchRejects]
    isSubmitting_cleared [of "\<lparr>formData = jane, isSubmitting = True\<rparr>" FetchRejects]
    jane_passes [of True "[]"]
  by (simp add: initial_def)

text \<open>
  C4. When some field of the form data is empty once trimmed, validation fails with
  the notification of \<open>MissingFields\<close>, and the handler ends at once: its events are
  the prevented default and that toast, whatever the network would have answered.
  No request is issued and \<open>isSubmitting\<close> is never written.
\<close>

theorem missing_fields:
  assumes "incomplete (formData c)"
  shows "reports (c, tr) MissingFields \<and>
         handleSubmit outcome (c, []) = (c, [PreventDefault, Toast (spec_notification MissingFields)]) \<and>
         fetches (snd (handleSubmit outcome (c, []))) = [] \<and>
         flagWrites (snd (handleSubmit outcome (c, []))) = []"
proof -
  from assms have "\<not> fst (validateForm (c, []))" by (simp add: fst_validateForm)
  then have "handleSubmit outcome (c, []) = snd (validateForm (c, [] @ [PreventDefault]))"
    by (rule handleSubmit_invalid)
  with assms have "handleSubmit outcome (c, []) = (c, [PreventDefault, Toast (spec_notification MissingFields)])"
    by (simp add: validateForm_eq)
  with assms show ?thesis
    by (simp add: reports_iff fetches_simps flagWrites_simps)
qed

theorem missing_fields_witness:
  "incomplete (formData (initial\<lparr>formData := jane\<lparr>city := js ''   ''\<rparr>\<rparr>)) \<and>
   reports (initial\<lparr>formData := jane\<lparr>city := js ''   ''\<rparr>\<rparr>, []) MissingFields \<and>
   fetches (snd (handleSubmit (FetchResolves 200 (TextResolves []))
      (initial\<lparr>formData := jane\<lparr>city := js ''   ''\<rparr>\<rparr>, []))) = [] \<and>
   flagWrites (snd (handleSubmit (FetchResolves 200 (TextResolves []))
      (initial\<lparr>formData := jane\<lparr>city := js ''   ''\<rparr>\<rparr>, []))) = []"
proof -
  have i: "incomplete (formData (initial\<lparr>formData := jane\<lparr>city := js ''   ''\<rparr>\<rparr>))"
    by (simp add: incomplete_def string_eval)
  from missing_fields [OF i, of "[]" "FetchResolves 200 (TextResolves [])"] i
  show ?thesis by blast
qed

text \<open>
  C5, as the specification words it, fails. A valid email shape in the
  specification's sense (its shape, on the trimmed email) does not bring validation to
  the age check: with the email \<^verbatim>\<open>"a@b@c.d"\<close> and the age \<^verbatim>\<open>"0"\<close> no field is
  empty once trimmed, the email has the specification's shape and the age parses to 0,
  outside the range, yet validation fails with \<open>InvalidEmail\<close> and not with
  \<open>InvalidAge\<close>.
\<close>

theorem spec_shape_invalid_age_counterexample:
  "\<not> incomplete (jane\<lparr>age := js ''0'', email := js ''a@b@c.d''\<rparr>) \<and>
   test spec_email_shape (trim (email (jane\<lparr>age := js ''0'', email := js ''a@b@c.d''\<rparr>))) \<and>
   \<not> (reports (\<lparr>formData = jane\<lparr>age := js ''0'', email := js ''a@b@c.d''\<rparr>,
                 isSubmitting = False\<rparr>, []) InvalidAge
        \<longleftrightarrow> age_unacceptable (age (jane\<lparr>age := js ''0'', email := js ''a@b@c.d''\<rparr>))) \<and>
   reports (\<lparr>formData = jane\<lparr>age := js ''0'', email := js ''a@b@c.d''\<rparr>,
             isSubmitting = False\<rparr>, []) InvalidEmail"
proof -
  let ?fd = "jane\<lparr>age := js ''0'', email := js ''a@b@c.d''\<rparr>"
  have i: "\<not> incomplete ?fd"
    by (simp add: incomplete_def jane_def string_eval)
  have s: "test spec_email_shape (trim (email ?fd))"
    by (simp add: string_eval regex_eval spec_email_shape_def notSpace_def)
  have e: "\<not> test emailRegex (email ?fd)"
    by (simp add: string_eval regex_eval)
  have a: "age_unacceptable (age ?fd)"
    by (simp add: age_unacceptable_def string_eval parse_eval)
  have r: "reports (\<lparr>formData = ?fd, isSubmitting = False\<rparr>, []) InvalidEmail"
    using i e by (simp add: reports_iff)
  have n: "\<not> reports (\<lparr>formData = ?fd, isSubmitting = False\<rparr>, []) InvalidAge"
    using i e by (simp add: reports_iff)
  from i s a r n show ?thesis by blast
qed

text \<open>
  C5, amended. For form data with no field empty once trimmed and whose email as held
  (not trimmed) passes the pattern of line 46, validation fails with the notification
  of \<open>InvalidAge\<close> exactly when the age does not parse under \<^verbatim>\<open>parseInt\<close> with no
  radix or the number parsed is outside the range from 1 to 150. That parse skips
  leading white space; it reads a leading run of decimal digits as the decimal number,
  whatever follows, unless the run is a single \<^verbatim>\<open>0\<close> followed by \<^verbatim>\<open>x\<close> or \<^verbatim>\<open>X\<close>;
  after \<^verbatim>\<open>0x\<close> or \<^verbatim>\<open>0X\<close> it reads a leading run of hexadecimal digits as the
  hexadecimal number; and it fails on the empty string and on a string that starts
  with neither white space, a sign nor a decimal digit. \<^verbatim>\<open>"abc"\<close> does not parse and
  \<^verbatim>\<open>"12abc"\<close> parses as 12; with the age \<^verbatim>\<open>"45"\<close> the form is valid, with
  \<^verbatim>\<open>"0"\<close>, \<^verbatim>\<open>"151"\<close> and \<^verbatim>\<open>"abc"\<close> it fails with \<open>InvalidAge\<close>.
\<close>

theorem invalid_age_iff:
  "(\<not> incomplete (formData c) \<and> test emailRegex (email (formData c)) \<longrightarrow>
      (reports (c, tr) InvalidAge \<longleftrightarrow> age_unacceptable (age (formData c)))) \<and>
   (list_all isWhiteSpace ws \<longrightarrow> parseInt (ws @ s) = parseInt s) \<and>
   (ds \<noteq> [] \<and> list_all isDecimalDigit ds \<and> (rest = [] \<or> \<not> isDecimalDigit (hd rest)) \<and>
    \<not> (ds = [0x30] \<and> rest \<noteq> [] \<and> (hd rest = 0x78 \<or> hd rest = 0x58)) \<longrightarrow>
      parseInt (ds @ rest) = Some (int (decimal ds))) \<and>
   ((x = 0x78 \<or> x = 0x58) \<and> hs \<noteq> [] \<and> list_all isHexDigit hs \<and>
    (rest2 = [] \<or> \<not> isHexDigit (hd rest2)) \<longrightarrow>
      parseInt ([0x30, x] @ hs @ rest2) = Some (int (hexadecimal hs))) \<and>
   (u = [] \<or> (\<not> isWhiteSpace (hd u) \<and> hd u \<noteq> 0x2B \<and> hd u \<noteq> 0x2D \<and>
                \<not> isDecimalDigit (hd u)) \<longrightarrow>
      parseInt u = None) \<and>
   parseInt (js ''abc'') = None \<and>
   parseInt (js ''12abc'') = Some 12 \<and>
   validateForm (\<lparr>formData = jane\<lparr>age := js ''45''\<rparr>, isSubmitting = b\<rparr>, tr) =
     (True, (\<lparr>formData = jane\<lparr>age := js ''45''\<rparr>, isSubmitting = b\<rparr>, tr)) \<and>
   reports (\<lparr>formData = jane\<lparr>age := js ''0''\<rparr>, isSubmitting = b\<rparr>, tr) InvalidAge \<and>
   reports (\<lparr>formData = jane\<lparr>age := js ''151''\<rparr>, isSubmitting = b\<rparr>, tr) InvalidAge \<and>
   reports (\<lparr>formData = jane\<lparr>age := js ''abc''\<rparr>, isSubmitting = b\<rparr>, tr) InvalidAge"
proof -
  have general: "\<not> incomplete (formData c) \<and> test emailRegex (email (formData c)) \<longrightarrow>
      (reports (c, tr) InvalidAge \<longleftrightarrow> age_unacceptable (age (formData c)))"
    by (simp add: reports_iff)
  have space: "list_all isWhiteSpace ws \<longrightarrow> parseInt (ws @ s) = parseInt s"
    by (simp add: parseInt_skips_space)
  have dec: "ds \<noteq> [] \<and> list_all isDecimalDigit ds \<and> (rest = [] \<or> \<not> isDecimalDigit (hd rest)) \<and>
    \<not> (ds = [0x30] \<and> rest \<noteq> [] \<and> (hd rest = 0x78 \<or> hd rest = 0x58)) \<longrightarrow>
      parseInt (ds @ rest) = Some (int (decimal ds))"
    using parseInt_decimal [of ds rest] by blast
  have hex: "(x = 0x78 \<or> x = 0x58) \<and> hs \<noteq> [] \<and> list_all isHexDigit hs \<and>
    (rest2 = [] \<or> \<not> isHexDigit (hd rest2)) \<longrightarrow>
      parseInt ([0x30, x] @ hs @ rest2) = Some (int (hexadecimal hs))"
    using parseInt_hex [of x hs rest2] by blast
  have none: "u = [] \<or> (\<not> isWhiteSpace (hd u) \<and> hd u \<noteq> 0x2B \<and> hd u \<noteq> 0x2D \<and>
                \<not> isDecimalDigit (hd u)) \<longrightarrow> parseInt u = None"
    using parseInt_no_digits [of u] by blast
  have abc: "parseInt (js ''abc'') = None"
    by (simp add: string_eval parse_eval)
  have prefix: "parseInt (js ''12abc'') = Some 12"
    by (simp add: string_eval parse_eval)
  have filled: "\<not> incomplete (jane\<lparr>age := js a\<rparr>) \<and> test emailRegex (email (jane\<lparr>age := js a\<rparr>))"
    if "trim (js a) \<noteq> []" for a
    using that jane_valid by (simp add: incomplete_def jane_def)
  have a45: "validateForm (\<lparr>formData = jane\<lparr>age := js ''45''\<rparr>, isSubmitting = b\<rparr>, tr) =
     (True, (\<lparr>formData = jane\<lparr>age := js ''45''\<rparr>, isSubmitting = b\<rparr>, tr))"
    using filled [of "''45''"]
    by (simp add: validateForm_eq age_unacceptable_def string_eval parse_eval)
  have a0: "reports (\<lparr>formData = jane\<lparr>age := js ''0''\<rparr>, isSubmitting = b\<rparr>, tr) InvalidAge"
    using filled [of "''0''"]
    by (simp add: reports_iff age_unacceptable_def string_eval parse_eval)
  have a151: "reports (\<lparr>formData = jane\<lparr>age := js ''151''\<rparr>, isSubmitting = b\<rparr>, tr) InvalidAge"
    using filled [of "''151''"]
    by (simp add: reports_iff age_unacceptable_def string_eval parse_eval)
  have aabc: "reports (\<lparr>formData = jane\<lparr>age := js ''abc''\<rparr>, isSubmitting = b\<rparr>, tr) InvalidAge"
    using filled [of "''abc''"]
    by (simp add: reports_iff age_unacceptable_def string_eval parse_eval)
  from general space dec hex none abc prefix a45 a0 a151 aabc show ?thesis
    by (intro conjI)
qed

theorem invalid_age_iff_witness:
  "\<not> incomplete (jane\<lparr>age := js ''12abc''\<rparr>) \<and>
   test emailRegex (email (jane\<lparr>age := js ''12abc''\<rparr>)) \<and>
   \<not> age_unacceptable (js ''12abc'') \<and>
   \<not> reports (\<lparr>formData = jane\<lparr>age := js ''12abc''\<rparr>, isSubmitting = False\<rparr>, []) InvalidAge \<and>
   list_all isWhiteSpace (js '' '') \<and>
   parseInt (js '' '' @ js ''42'') = parseInt (js ''42'') \<and>
   list_all isDecimalDigit (js ''42'') \<and> \<not> isDecimalDigit (hd (js ''abc'')) \<and>
   parseInt (js ''42'' @ js ''abc'') = Some 42 \<and>
   list_all isHexDigit (js ''1f'') \<and> \<not> isHexDigit (hd (js ''g'')) \<and>
   parseInt ([0x30, 0x78] @ js ''1f'' @ js ''g'') = Some 31 \<and>
   \<not> isWhiteSpace (hd (js ''x1'')) \<and> \<not> isDecimalDigit (hd (js ''x1'')) \<and>
   parseInt (js ''x1'') = None"
proof -
  let ?c = "\<lparr>formData = jane\<lparr>age := js ''12abc''\<rparr>, isSubmitting = False\<rparr>"
  have h: "\<not> incomplete (jane\<lparr>age := js ''12abc''\<rparr>) \<and>
      test emailRegex (email (jane\<lparr>age := js ''12abc''\<rparr>))"
    using jane_valid by (simp add: incomplete_def jane_def string_eval)
  have a: "\<not> age_unacceptable (js ''12abc'')"
    by (simp add: age_unacceptable_def string_eval parse_eval)
  have w: "list_all isWhiteSpace (js '' '')"
    by (simp add: string_eval)
  have d: "js ''42'' \<noteq> []" "list_all isDecimalDigit (js ''42'')"
      "\<not> isDecimalDigit (hd (js ''abc''))" "js ''42'' \<noteq> [0x30]"
      "decimal (js ''42'') = 42"
    by (simp_all add: js_def isDecimalDigit_def decimal_def)
  have x: "js ''1f'' \<noteq> []" "list_all isHexDigit (js ''1f'')"
      "\<not> isHexDigit (hd (js ''g''))" "hexadecimal (js ''1f'') = 31"
    by (simp_all add: js_def isHexDigit_def hexadecimal_def)
  have n: "\<not> isWhiteSpace (hd (js ''x1''))" "hd (js ''x1'') \<noteq> 0x2B" "hd (js ''x1'') \<noteq> 0x2D"
      "\<not> isDecimalDigit (hd (js ''x1''))"
    by (simp_all add: js_def isWhiteSpace_def isDecimalDigit_def)
  note t = invalid_age_iff [of ?c "[]" "js '' ''" "js ''42''" "js ''42''" "js ''abc''"
      "0x78" "js ''1f''" "js ''g''" "js ''x1''"]
  from t h a have 1: "\<not> reports (?c, []) InvalidAge" by simp
  from t w have 2: "parseInt (js '' '' @ js ''42'') = parseInt (js ''42'')" by blast
  from t d have 3: "parseInt (js ''42'' @ js ''abc'') = Some 42" by simp
  from t x have 4: "parseInt ([0x30, 0x78] @ js ''1f'' @ js ''g'') = Some 31" by simp
  from t n have 5: "parseInt (js ''x1'') = None" by blast
  from h a w d x n 1 2 3 4 5 show ?thesis by blast
qed

text \<open>
  C6, as the specification words it, fails on two counts. The email is matched as it
  is held, not trimmed: with the email \<^verbatim>\<open>" a@b.c"\<close> no field is empty once trimmed and
  the trimmed email has the specification's shape, yet validation fails with
  \<open>InvalidEmail\<close>. And \<^verbatim>\<open>@\<close> is refused after the first \<^verbatim>\<open>@\<close> as well: the email
  \<^verbatim>\<open>"a@b@c.d"\<close> has the specification's shape, yet validation fails with
  \<open>InvalidEmail\<close>.
\<close>

theorem trimmed_spec_shape_counterexample:
  "\<not> incomplete (jane\<lparr>email := js '' a@b.c''\<rparr>) \<and>
   \<not> (reports (\<lparr>formData = jane\<lparr>email := js '' a@b.c''\<rparr>, isSubmitting = False\<rparr>, []) InvalidEmail
        \<longleftrightarrow> \<not> test spec_email_shape (trim (email (jane\<lparr>email := js '' a@b.c''\<rparr>)))) \<and>
   \<not> incomplete (jane\<lparr>email := js ''a@b@c.d''\<rparr>) \<and>
   \<not> (reports (\<lparr>formData = jane\<lparr>email := js ''a@b@c.d''\<rparr>, isSubmitting = False\<rparr>, []) InvalidEmail
        \<longleftrightarrow> \<not> test spec_email_shape (trim (email (jane\<lparr>email := js ''a@b@c.d''\<rparr>))))"
proof -
  have i1: "\<not> incomplete (jane\<lparr>email := js '' a@b.c''\<rparr>)"
    using jane_valid by (simp add: incomplete_def jane_def string_eval)
  have i2: "\<not> incomplete (jane\<lparr>email := js ''a@b@c.d''\<rparr>)"
    using jane_valid by (simp add: incomplete_def jane_def string_eval)
  have r1: "reports (\<lparr>formData = jane\<lparr>email := js '' a@b.c''\<rparr>, isSubmitting = False\<rparr>, []) InvalidEmail"
    using i1 by (simp add: reports_iff string_eval regex_eval)
  have r2: "reports (\<lparr>formData = jane\<lparr>email := js ''a@b@c.d''\<rparr>, isSubmitting = False\<rparr>, []) InvalidEmail"
    using i2 by (simp add: reports_iff string_eval regex_eval)
  have s1: "test spec_email_shape (trim (email (jane\<lparr>email := js '' a@b.c''\<rparr>)))"
    by (simp add: string_eval regex_eval spec_email_shape_def notSpace_def)
  have s2: "test spec_email_shape (trim (email (jane\<lparr>email := js ''a@b@c.d''\<rparr>)))"
    by (simp add: string_eval regex_eval spec_email_shape_def notSpace_def)
  from i1 i2 r1 r2 s1 s2 show ?thesis by blast
qed

text \<open>
  C6, amended. For form data with no field empty once trimmed, validation fails with
  the notification of \<open>InvalidEmail\<close> exactly when the email as held (not trimmed) is
  not of the form: one or more characters that are neither white space nor \<^verbatim>\<open>@\<close>,
  then \<^verbatim>\<open>@\<close>, then one or more such characters, then a dot, then one or more such
  characters.
\<close>

theorem invalid_email_iff:
  assumes "\<not> incomplete (formData c)"
  shows "reports (c, tr) InvalidEmail \<longleftrightarrow>
     \<not> (\<exists>l d t. email (formData c) = l @ [0x40] @ d @ [0x2E] @ t \<and>
            l \<noteq> [] \<and> list_all notSpaceAt l \<and>
            d \<noteq> [] \<and> list_all notSpaceAt d \<and>
            t \<noteq> [] \<and> list_all notSpaceAt t)"
  using assms by (simp only: reports_iff fst_conv if_False test_emailRegex) simp

theorem invalid_email_iff_witness:
  "\<not> incomplete (jane\<lparr>email := js '' a@b.c''\<rparr>) \<and>
   reports (\<lparr>formData = jane\<lparr>email := js '' a@b.c''\<rparr>, isSubmitting = False\<rparr>, []) InvalidEmail \<and>
   \<not> (\<exists>l d t. js '' a@b.c'' = l @ [0x40] @ d @ [0x2E] @ t \<and>
            l \<noteq> [] \<and> list_all notSpaceAt l \<and>
            d \<noteq> [] \<and> list_all notSpaceAt d \<and>
            t \<noteq> [] \<and> list_all notSpaceAt t)"
proof -
  have i: "\<not> incomplete (formData \<lparr>formData = jane\<lparr>email := js '' a@b.c''\<rparr>, isSubmitting = False\<rparr>)"
    using jane_valid by (simp add: incomplete_def jane_def string_eval)
  have r: "reports (\<lparr>formData = jane\<lparr>email := js '' a@b.c''\<rparr>, isSubmitting = False\<rparr>, []) InvalidEmail"
    using i by (simp add: reports_iff string_eval regex_eval)
  from invalid_email_iff [OF i, of "[]"] r i show ?thesis by simp
qed

text \<open>
  C7. The checks run in the order completeness, email, age, and the first that fails
  is the one reported: an empty field gives \<open>MissingFields\<close> and neither of the other
  two; with every field filled, an email that fails the pattern gives \<open>InvalidEmail\<close>
  and neither of the other two, whatever the age; with those two passed, an age that
  is not acceptable gives \<open>InvalidAge\<close>. In particular form data with an empty field
  and an email of the wrong shape (by the pattern of the code, or by the
  specification's shape on the trimmed email) gives \<open>MissingFields\<close>, not
  \<open>InvalidEmail\<close>. Validation shows at most one toast.
\<close>

theorem validation_order:
  "(incomplete (formData c) \<longrightarrow>
      reports (c, tr) MissingFields \<and> \<not> reports (c, tr) InvalidEmail \<and>
      \<not> reports (c, tr) InvalidAge) \<and>
   (\<not> incomplete (formData c) \<and> \<not> test emailRegex (email (formData c)) \<longrightarrow>
      reports (c, tr) InvalidEmail \<and> \<not> reports (c, tr) MissingFields \<and>
      \<not> reports (c, tr) InvalidAge) \<and>
   (\<not> incomplete (formData c) \<and> test emailRegex (email (formData c)) \<and>
    age_unacceptable (age (formData c)) \<longrightarrow>
      reports (c, tr) InvalidAge \<and> \<not> reports (c, tr) MissingFields \<and>
      \<not> reports (c, tr) InvalidEmail) \<and>
   (incomplete (formData c) \<and>
    (\<not> test emailRegex (email (formData c)) \<or>
     \<not> test spec_email_shape (trim (email (formData c)))) \<longrightarrow>
      reports (c, tr) MissingFields \<and> \<not> reports (c, tr) InvalidEmail) \<and>
   length (toasts (snd (snd (validateForm (c, []))))) \<le> 1"
proof -
  have "length (toasts (snd (snd (validateForm (c, []))))) \<le> 1"
    by (simp add: validateForm_eq toasts_simps)
  then show ?thesis
    by (simp add: reports_iff)
qed

theorem validation_order_witness:
  "incomplete (jane\<lparr>name := [], email := js ''nobody''\<rparr>) \<and>
   \<not> test emailRegex (email (jane\<lparr>name := [], email := js ''nobody''\<rparr>)) \<and>
   reports (\<lparr>formData = jane\<lparr>name := [], email := js ''nobody''\<rparr>, isSubmitting = False\<rparr>, [])
     MissingFields \<and>
   \<not> reports (\<lparr>formData = jane\<lparr>name := [], email := js ''nobody''\<rparr>, isSubmitting = False\<rparr>, [])
     InvalidEmail \<and>
   \<not> incomplete (jane\<lparr>age := js ''0'', email := js ''nobody''\<rparr>) \<and>
   \<not> test emailRegex (email (jane\<lparr>age := js ''0'', email := js ''nobody''\<rparr>)) \<and>
   reports (\<lparr>formData = jane\<lparr>age := js ''0'', email := js ''nobody''\<rparr>, isSubmitting = False\<rparr>, [])
     InvalidEmail \<and>
   \<not> reports (\<lparr>formData = jane\<lparr>age := js ''0'', email := js ''nobody''\<rparr>, isSubmitting = False\<rparr>, [])
     InvalidAge \<and>
   \<not> incomplete (jane\<lparr>age := js ''0''\<rparr>) \<and>
   test emailRegex (email (jane\<lparr>age := js ''0''\<rparr>)) \<and>
   age_unacceptable (age (jane\<lparr>age := js ''0''\<rparr>)) \<and>
   reports (\<lparr>formData = jane\<lparr>age := js ''0''\<rparr>, isSubmitting = False\<rparr>, []) InvalidAge"
proof -
  have a: "incomplete (jane\<lparr>name := [], email := js ''nobody''\<rparr>) \<and>
      \<not> test emailRegex (email (jane\<lparr>name := [], email := js ''nobody''\<rparr>))"
    by (simp add: incomplete_def string_eval regex_eval)
  have b: "\<not> incomplete (jane\<lparr>age := js ''0'', email := js ''nobody''\<rparr>) \<and>
      \<not> test emailRegex (email (jane\<lparr>age := js ''0'', email := js ''nobody''\<rparr>))"
    by (simp add: incomplete_def jane_def string_eval regex_eval)
  have c: "\<not> incomplete (jane\<lparr>age := js ''0''\<rparr>) \<and>
      test emailRegex (email (jane\<lparr>age := js ''0''\<rparr>)) \<and>
      age_unacceptable (age (jane\<lparr>age := js ''0''\<rparr>))"
    by (simp add: incomplete_def jane_def age_unacceptable_def string_eval regex_eval parse_eval)
  from a b c
    validation_order [of "\<lparr>formData = jane\<lparr>name := [], email := js ''nobody''\<rparr>, isSubmitting = False\<rparr>" "[]"]
    validation_order [of "\<lparr>formData = jane\<lparr>age := js ''0'', email := js ''nobody''\<rparr>, isSubmitting = False\<rparr>" "[]"]
    validation_order [of "\<lparr>formData = jane\<lparr>age := js ''0''\<rparr>, isSubmitting = False\<rparr>" "[]"]
  show ?thesis by simp
qed

text \<open>
  C8. The change handler is idempotent, and changes the named field only: applied
  twice with the same field and value it gives the component it gives when applied
  once; \<open>isSubmitting\<close> is unchanged; the named field holds the value and each of
  the other four fields holds what it held.
\<close>

theorem handleInputChange_idempotent:
  "handleInputChange f v (handleInputChange f v c) = handleInputChange f v c \<and>
   isSubmitting (handleInputChange f v c) = isSubmitting c \<and>
   name (formData (handleInputChange f v c)) = (if f = Name then v else name (formData c)) \<and>
   age (formData (handleInputChange f v c)) = (if f = Age then v else age (formData c)) \<and>
   city (formData (handleInputChange f v c)) = (if f = City then v else city (formData c)) \<and>
   phone (formData (handleInputChange f v c)) = (if f = Phone then v else phone (formData c)) \<and>
   email (formData (handleInputChange f v c)) = (if f = Email then v else email (formData c))"
  by (cases f) (simp_all add: handleInputChange_def)

text \<open>
  C9. Each kind of validation failure shows exactly one toast, with the title and the
  message of the specification and the destructive variant: an empty field shows
  "Missing Information" with "Please fill in all required fields."; an email that fails
  the pattern shows "Invalid Email" with "Please enter a valid email address."; an
  unacceptable age shows "Invalid Age" with "Please enter a valid age.". A validation
  that fails is one of the three.
\<close>

theorem notification_texts:
  "(incomplete (formData c) \<longrightarrow>
      validateForm (c, tr) =
        (False, (c, tr @ [Toast \<lparr>title = js ''Missing Information'',
                            description = js ''Please fill in all required fields.'',
                            variant = Some (js ''destructive'')\<rparr>]))) \<and>
   (\<not> incomplete (formData c) \<and> \<not> test emailRegex (email (formData c)) \<longrightarrow>
      validateForm (c, tr) =
        (False, (c, tr @ [Toast \<lparr>title = js ''Invalid Email'',
                            description = js ''Please enter a valid email address.'',
                            variant = Some (js ''destructive'')\<rparr>]))) \<and>
   (\<not> incomplete (formData c) \<and> test emailRegex (email (formData c)) \<and>
    age_unacceptable (age (formData c)) \<longrightarrow>
      validateForm (c, tr) =
        (False, (c, tr @ [Toast \<lparr>title = js ''Invalid Age'',
                            description = js ''Please enter a valid age.'',
                            variant = Some (js ''destructive'')\<rparr>]))) \<and>
   (\<not> fst (validateForm (c, tr)) \<longrightarrow>
      incomplete (formData c) \<or> \<not> test emailRegex (email (formData c)) \<or>
      age_unacceptable (age (formData c)))"
  by (simp add: validateForm_eq spec_notification_def)

theorem notification_texts_witness:
  "incomplete (formData initial) \<and>
   validateForm (initial, []) =
     (False, (initial, [Toast \<lparr>title = js ''Missing Information'',
                         description = js ''Please fill in all required fields.'',
                         variant = Some (js ''destructive'')\<rparr>])) \<and>
   \<not> incomplete (jane\<lparr>age := js ''0'', email := js ''nobody''\<rparr>) \<and>
   \<not> test emailRegex (email (jane\<lparr>age := js ''0'', email := js ''nobody''\<rparr>)) \<and>
   validateForm (\<lparr>formData = jane\<lparr>age := js ''0'', email := js ''nobody''\<rparr>, isSubmitting = False\<rparr>, []) =
     (False, (\<lparr>formData = jane\<lparr>age := js ''0'', email := js ''nobody''\<rparr>, isSubmitting = False\<rparr>,
        [Toast \<lparr>title = js ''Invalid Email'',
                description = js ''Please enter a valid email address.'',
                variant = Some (js ''destructive'')\<rparr>])) \<and>
   \<not> incomplete (jane\<lparr>age := js ''0''\<rparr>) \<and>
   test emailRegex (email (jane\<lparr>age := js ''0''\<rparr>)) \<and>
   age_unacceptable (age (jane\<lparr>age := js ''0''\<rparr>)) \<and>
   validateForm (\<lparr>formData = jane\<lparr>age := js ''0''\<rparr>, isSubmitting = False\<rparr>, []) =
     (False, (\<lparr>formData = jane\<lparr>age := js ''0''\<rparr>, isSubmitting = False\<rparr>,
        [Toast \<lparr>title = js ''Invalid Age'',
                description = js ''Please enter a valid age.'',
                variant = Some (js ''destructive'')\<rparr>]))"
proof -
  have a: "incomplete (formData initial)"
    by (simp add: initial_def incomplete_def trim_def)
  have b: "\<not> incomplete (jane\<lparr>age := js ''0'', email := js ''nobody''\<rparr>) \<and>
      \<not> test emailRegex (email (jane\<lparr>age := js ''0'', email := js ''nobody''\<rparr>))"
    by (simp add: incomplete_def jane_def string_eval regex_eval)
  have c: "\<not> incomplete (jane\<lparr>age := js ''0''\<rparr>) \<and>
      test emailRegex (email (jane\<lparr>age := js ''0''\<rparr>)) \<and>
      age_unacceptable (age (jane\<lparr>age := js ''0''\<rparr>))"
    by (simp add: incomplete_def jane_def age_unacceptable_def string_eval regex_eval parse_eval)
  from a b c
    notification_texts [of initial "[]"]
    notification_texts [of "\<lparr>formData = jane\<lparr>age := js ''0'', email := js ''nobody''\<rparr>, isSubmitting = False\<rparr>" "[]"]
    notification_texts [of "\<lparr>formData = jane\<lparr>age := js ''0''\<rparr>, isSubmitting = False\<rparr>" "[]"]
  show ?thesis by simp
qed

text \<open>
  C10. The age is not read as a decimal numeral only: \<^verbatim>\<open>"0x10"\<close> parses to 16 and
  the form with that age is valid, and \<^verbatim>\<open>" 42"\<close>, with a space in front, parses to 42
  and the form with that age is valid.
\<close>

theorem parseInt_not_only_decimal:
  "parseInt (js ''0x10'') = Some 16 \<and>
   validateForm (\<lparr>formData = jane\<lparr>age := js ''0x10''\<rparr>, isSubmitting = False\<rparr>, []) =
     (True, (\<lparr>formData = jane\<lparr>age := js ''0x10''\<rparr>, isSubmitting = False\<rparr>, [])) \<and>
   parseInt (js '' 42'') = Some 42 \<and>
   validateForm (\<lparr>formData = jane\<lparr>age := js '' 42''\<rparr>, isSubmitting = False\<rparr>, []) =
     (True, (\<lparr>formData = jane\<lparr>age := js '' 42''\<rparr>, isSubmitting = False\<rparr>, []))"
proof -
  have hex: "parseInt (js ''0x10'') = Some 16"
    by (simp add: string_eval parse_eval)
  have sp: "parseInt (js '' 42'') = Some 42"
    by (simp add: string_eval parse_eval)
  have rest: "\<not> incomplete (jane\<lparr>age := a\<rparr>) \<and> test emailRegex (email (jane\<lparr>age := a\<rparr>))"
    if "trim a \<noteq> []" for a
    using that jane_valid by (simp add: incomplete_def jane_def)
  have "trim (js ''0x10'') \<noteq> []" and "trim (js '' 42'') \<noteq> []"
    by (simp_all add: string_eval)
  with hex sp rest [of "js ''0x10''"] rest [of "js '' 42''"] show ?thesis
    by (simp add: validateForm_eq age_unacceptable_def)
qed

end
